theory Spec2Isabelle
  imports Complex_Main "HOL-Library.Multiset"
begin

section \<open>The per-trade risk management bot (bot.js)\<close>

text \<open>
  A shallow embedding of the monitoring cycle of \<^verbatim>\<open>src/bot.js\<close>:
  \<^verbatim>\<open>getMidnightTonight\<close>, \<^verbatim>\<open>isSymbolBlocked\<close>, \<^verbatim>\<open>isAccountBlocked\<close>,
  \<^verbatim>\<open>getAccountBalance\<close>, \<^verbatim>\<open>getOpenPositions\<close>, \<^verbatim>\<open>closePosition\<close>,
  \<^verbatim>\<open>closeAllPositions\<close>, \<^verbatim>\<open>monitorAccount\<close> and the loop of \<^verbatim>\<open>startMonitoring\<close>.

  Conventions of the embedding.
  \<^item> A JavaScript Number is a \<open>jsnum\<close>: a finite value (a rational), an infinity or
    NaN. Subtraction, multiplication and division are those of IEEE 754 binary64: the
    exact result rounded to the nearest double, ties to even (\<open>rd\<close>). Comparison,
    negation and \<^verbatim>\<open>Math.abs\<close> are exact. The numbers the exchange and the database
    hand over (balance, prices, leverage, percentage, the four limits) are finite;
    the sign of a zero is not modelled.
  \<^item> A \<open>Date\<close> is its time value, the milliseconds since the epoch (\<open>int\<close>); an absent
    or null field is \<open>None\<close>. The time values of positions are those of valid dates.
  \<^item> The world outside (\<open>world\<close>) answers every call of a cycle: the \<open>k\<close>-th
    \<^verbatim>\<open>new Date()\<close>, the \<open>k\<close>-th \<^verbatim>\<open>fetchPositions\<close>, whether the \<open>k\<close>-th \<^verbatim>\<open>createOrder\<close>
    and the \<open>k\<close>-th \<^verbatim>\<open>accountDoc.save()\<close> throw, and the local time zone adjustment
    of the runtime. The cycle counts its calls in a \<open>run\<close>, next to the document it
    works on. A reading of the clock that only goes into a log line or into an
    alert is left out. An order or a save that throws is the last of its cycle:
    \<open>orders\<close> and \<open>saves\<close> count the calls that returned.
  \<^item> The calls a cycle makes to the exchange and to the database are recorded, in
    order, as a list of \<open>action\<close>s. \<^verbatim>\<open>saveAlert\<close>, \<^verbatim>\<open>saveMetrics\<close> and
    \<^verbatim>\<open>saveTradeHistory\<close> catch their own errors.
  \<^item> An error thrown inside \<^verbatim>\<open>monitorAccount\<close> is caught by its \<^verbatim>\<open>try/catch\<close>, which
    ends the cycle: the outcome \<open>Threw\<close> keeps the error, the actions made so far
    (the call that threw is the last of them) and the run as it then is.
\<close>

subsection \<open>Data\<close>

datatype level = critical | warning

text \<open>The message templates of the seven \<^verbatim>\<open>saveAlert\<close> call sites of \<^verbatim>\<open>monitorAccount\<close>.\<close>

datatype message =
    MaxDrawdownReached
  | AccountBlockedUntilMidnight
  | TooManyTrades
  | LeverageExceedsLimit string
  | HitDailyLimit string
  | SymbolBlockedUntilMidnight string
  | SymbolIsBlocked string

datatype jsnum = Fin rat | PosInf | NegInf | NaN

text \<open>The four limits of an account; \<open>maxOpenTrades\<close> is a count.\<close>

record RiskParams =
  dailyDrawdownLimit :: rat
  maxDrawdownLimit :: rat
  maxLeverage :: rat
  maxOpenTrades :: nat

text \<open>
  A position as ccxt returns it. \<open>info_markPrice\<close> is \<^verbatim>\<open>position.info?.markPrice\<close>;
  \<open>datetime\<close> is the time value of the ISO string, \<open>None\<close> when the field is absent.
\<close>

record position =
  symbol :: string
  side :: string
  leverage :: "rat option"
  entryPrice :: "rat option"
  markPrice :: "rat option"
  info_markPrice :: "rat option"
  percentage :: "rat option"
  contracts :: "rat option"
  timestamp :: "int option"
  datetime :: "int option"

record accountDoc =
  riskParams :: RiskParams
  isActive :: bool
  lastCheck :: "int option"
  blockedSymbols :: "(string \<rightharpoonup> int) option"
  blockedUntil :: "int option"

text \<open>The in-memory \<^verbatim>\<open>accountState\<close> object that \<^verbatim>\<open>initializeAccount\<close> builds.\<close>

record accountState =
  state_accountDoc :: accountDoc
  state_isActive :: bool
  state_initialBalance :: rat

text \<open>A trade record; \<open>th_reason\<close> is the string the source writes.\<close>

record TradeHistory =
  th_symbol :: string
  th_side :: string
  th_entryPrice :: "rat option"
  th_entryTime :: "int option"
  th_exitPrice :: "rat option"
  th_exitTime :: int
  th_pnlPercent :: jsnum
  th_reason :: string
  th_leverage :: "rat option"
  th_size :: "rat option"

record Metric =
  m_currentBalance :: rat
  m_totalPnL :: jsnum
  m_dailyPnL :: rat
  m_totalDrawdownPercent :: jsnum
  m_dailyDrawdownPercent :: rat
  m_openPositions :: nat

text \<open>
  What a cycle does, in order. \<open>Alert\<close> is \<^verbatim>\<open>saveAlert\<close>; \<open>CloseOne s d\<close> is the call
  \<^verbatim>\<open>closePosition(.., s, d)\<close>; \<open>CloseAll os\<close> is the call \<^verbatim>\<open>closeAllPositions\<close>, with
  the orders it placed; \<open>BlockSymbolUntil\<close> and \<open>BlockAccountUntil\<close> are the
  assignments to \<^verbatim>\<open>blockedSymbols\<close> and \<^verbatim>\<open>blockedUntil\<close>; \<open>RecordTrade\<close> is
  \<^verbatim>\<open>saveTradeHistory\<close>, \<open>RecordMetrics\<close> is \<^verbatim>\<open>saveMetrics\<close> and \<open>SaveAccount\<close> is
  \<^verbatim>\<open>accountDoc.save()\<close>. The source gives a reason only to a trade record.
\<close>

datatype action =
    Alert level message
  | CloseOne string string
  | CloseAll "(string \<times> string) list"
  | BlockSymbolUntil string int
  | BlockAccountUntil int
  | RecordTrade TradeHistory
  | RecordMetrics Metric
  | SaveAccount

datatype error = BalanceUnavailable | CloseFailed string string | SaveFailed

text \<open>
  The world during one cycle. \<open>fetchBalance\<close> and \<open>fetchPositions k\<close> are \<open>None\<close> when
  the call throws; \<open>localTZA t isUTC\<close> is the local time zone adjustment of
  ECMAScript, for a time value \<open>t\<close> that is UTC (\<open>isUTC\<close>) or local.
\<close>

record world =
  fetchBalance :: "rat option"
  fetchPositions :: "nat \<Rightarrow> position list option"
  createOrderFails :: "nat \<Rightarrow> bool"
  saveFails :: "nat \<Rightarrow> bool"
  clockAt :: "nat \<Rightarrow> int"
  localTZA :: "int \<Rightarrow> bool \<Rightarrow> int"

text \<open>
  The document a cycle works on and the numbers of clock readings, orders and saves
  it has made so far.
\<close>

record run =
  theDoc :: accountDoc
  reads :: nat
  orders :: nat
  saves :: nat

datatype outcome =
    Done "action list" run
  | Threw error "action list" run

subsection \<open>Numbers\<close>

text \<open>
  \<open>expo x\<close> is the binary exponent of a positive \<open>x\<close>, the \<open>e\<close> with
  \<open>2 ^ e \<le> x < 2 ^ (e + 1)\<close>: halve while \<open>x\<close> is at least 2, double while it is
  below 1.
\<close>

function expo_hi :: "rat \<Rightarrow> nat" where
  "expo_hi x = (if 2 \<le> x then Suc (expo_hi (x / 2)) else 0)"
  by pat_completeness auto
termination
proof (relation "measure (\<lambda>x. nat \<lfloor>x\<rfloor>)")
  show "wf (measure (\<lambda>x::rat. nat \<lfloor>x\<rfloor>))" by simp
next
  fix x :: rat
  assume x: "2 \<le> x"
  define n where "n = \<lfloor>x\<rfloor>"
  have a: "x < of_int n + 1" unfolding n_def by linarith
  have b: "1 \<le> n" unfolding n_def using x by (simp add: le_floor_iff)
  then have c: "(1::rat) \<le> of_int n" by simp
  from a c have "x / 2 < of_int n" by linarith
  then have "\<lfloor>x / 2\<rfloor> < n" by (simp only: floor_less_iff)
  with b show "(x / 2, x) \<in> measure (\<lambda>x. nat \<lfloor>x\<rfloor>)" unfolding n_def by simp
qed

function expo_lo :: "rat \<Rightarrow> nat" where
  "expo_lo x = (if 0 < x \<and> x < 1 then Suc (expo_lo (x * 2)) else 0)"
  by pat_completeness auto
termination
proof (relation "measure (\<lambda>x. nat \<lfloor>1 / x\<rfloor>)")
  show "wf (measure (\<lambda>x::rat. nat \<lfloor>1 / x\<rfloor>))" by simp
next
  fix x :: rat
  assume x: "0 < x \<and> x < 1"
  define y where "y = 1 / x"
  define n where "n = \<lfloor>y\<rfloor>"
  have y: "1 < y" unfolding y_def using x by simp
  have a: "y < of_int n + 1" unfolding n_def by linarith
  have b: "1 \<le> n" unfolding n_def using y by (simp add: le_floor_iff)
  then have c: "(1::rat) \<le> of_int n" by simp
  from a c have "y / 2 < of_int n" by linarith
  then have "\<lfloor>y / 2\<rfloor> < n" by (simp only: floor_less_iff)
  moreover have "y / 2 = 1 / (x * 2)" unfolding y_def by simp
  ultimately have "\<lfloor>1 / (x * 2)\<rfloor> < \<lfloor>1 / x\<rfloor>" unfolding n_def y_def by (simp only:)
  moreover have "1 \<le> \<lfloor>1 / x\<rfloor>" using b unfolding n_def y_def .
  ultimately show "(x * 2, x) \<in> measure (\<lambda>x. nat \<lfloor>1 / x\<rfloor>)" by simp
qed

declare expo_hi.simps [simp del] expo_lo.simps [simp del]

definition expo :: "rat \<Rightarrow> int" where
  "expo x = (if 1 \<le> x then int (expo_hi x) else - int (expo_lo x))"

definition pow2 :: "int \<Rightarrow> rat" where
  "pow2 e = (if 0 \<le> e then 2 ^ nat e else 1 / 2 ^ nat (- e))"

text \<open>The nearest integer, the even one of two that are equally near.\<close>

definition roundEven :: "rat \<Rightarrow> int" where
  "roundEven q =
     (if q - of_int \<lfloor>q\<rfloor> < 1 / 2 then \<lfloor>q\<rfloor>
      else if 1 / 2 < q - of_int \<lfloor>q\<rfloor> then \<lfloor>q\<rfloor> + 1
      else if even \<lfloor>q\<rfloor> then \<lfloor>q\<rfloor> else \<lfloor>q\<rfloor> + 1)"

text \<open>
  The distance of the doubles around \<open>x\<close>: 53 significant bits, and \<open>2 ^ - 1074\<close> in
  the subnormal range.
\<close>

definition ulp :: "rat \<Rightarrow> rat" where
  "ulp x = pow2 (max (expo \<bar>x\<bar>) (- 1022) - 52)"

text \<open>
  The double nearest to a rational, ties to even; what rounds to \<open>2 ^ 1024\<close> or
  beyond is an infinity.
\<close>

definition rd :: "rat \<Rightarrow> jsnum" where
  "rd x =
     (if x = 0 then Fin 0
      else if pow2 1024 \<le> of_int (roundEven (\<bar>x\<bar> / ulp x)) * ulp x
      then (if 0 < x then PosInf else NegInf)
      else Fin (if 0 < x then of_int (roundEven (\<bar>x\<bar> / ulp x)) * ulp x
                else - (of_int (roundEven (\<bar>x\<bar> / ulp x)) * ulp x)))"

text \<open>\<^verbatim>\<open>x - y\<close>, \<^verbatim>\<open>x * y\<close> and \<^verbatim>\<open>x / y\<close>.\<close>

fun js_sub :: "jsnum \<Rightarrow> jsnum \<Rightarrow> jsnum" where
  "js_sub (Fin a) (Fin b) = rd (a - b)"
| "js_sub NaN y = NaN"
| "js_sub x NaN = NaN"
| "js_sub (Fin a) PosInf = NegInf"
| "js_sub (Fin a) NegInf = PosInf"
| "js_sub x (Fin b) = x"
| "js_sub x y = (if x = y then NaN else x)"

fun js_mul :: "jsnum \<Rightarrow> jsnum \<Rightarrow> jsnum" where
  "js_mul (Fin a) (Fin b) = rd (a * b)"
| "js_mul NaN y = NaN"
| "js_mul x NaN = NaN"
| "js_mul (Fin a) y =
     (if a = 0 then NaN else if (0 < a) = (y = PosInf) then PosInf else NegInf)"
| "js_mul x (Fin b) =
     (if b = 0 then NaN else if (0 < b) = (x = PosInf) then PosInf else NegInf)"
| "js_mul x y = (if x = y then PosInf else NegInf)"

fun js_div :: "jsnum \<Rightarrow> jsnum \<Rightarrow> jsnum" where
  "js_div (Fin a) (Fin b) =
     (if b \<noteq> 0 then rd (a / b)
      else if 0 < a then PosInf
      else if a < 0 then NegInf
      else NaN)"
| "js_div NaN y = NaN"
| "js_div x NaN = NaN"
| "js_div (Fin a) y = Fin 0"
| "js_div x (Fin b) = (if (0 \<le> b) = (x = PosInf) then PosInf else NegInf)"
| "js_div x y = NaN"

text \<open>\<^verbatim>\<open>x <= r\<close> for a finite \<open>r\<close>.\<close>

definition js_le :: "jsnum \<Rightarrow> rat \<Rightarrow> bool" where
  "js_le x r = (case x of Fin v \<Rightarrow> v \<le> r | PosInf \<Rightarrow> False | NegInf \<Rightarrow> True | NaN \<Rightarrow> False)"

text \<open>\<^verbatim>\<open>parseFloat(x || 0)\<close> for a numeric field that may be absent.\<close>

definition num :: "rat option \<Rightarrow> rat" where
  "num x = (case x of None \<Rightarrow> 0 | Some v \<Rightarrow> v)"

subsection \<open>Helper functions of the source\<close>

definition dayMs :: int where
  "dayMs = 86400000"

text \<open>
  \<^verbatim>\<open>midnight.setHours(24, 0, 0, 0)\<close> on \<^verbatim>\<open>new Date()\<close>, as ECMAScript defines it: the
  local time of the reading, the start of the day after it in local time
  (\<open>MakeDate(Day(t), MakeTime(24, 0, 0, 0))\<close>), and that local time taken back to UTC.
\<close>

definition nextLocalMidnight :: "world \<Rightarrow> int \<Rightarrow> int" where
  "nextLocalMidnight w t = ((t + localTZA w t True) div dayMs + 1) * dayMs"

definition getMidnightTonight :: "world \<Rightarrow> int \<Rightarrow> int" where
  "getMidnightTonight w t =
     nextLocalMidnight w t - localTZA w (nextLocalMidnight w t) False"

text \<open>
  The two reads of the blocking state, at the time \<open>t\<close> that \<^verbatim>\<open>new Date()\<close> gives.
\<close>

definition isSymbolBlocked :: "int \<Rightarrow> accountDoc \<Rightarrow> string \<Rightarrow> bool \<times> accountDoc" where
  "isSymbolBlocked t doc smb =
     (case blockedSymbols doc of
        None \<Rightarrow> (False, doc)
      | Some m \<Rightarrow>
         (case m smb of
            None \<Rightarrow> (False, doc)
          | Some until \<Rightarrow>
             if t < until then (True, doc)
             else (False, doc\<lparr>blockedSymbols := Some (m(smb := None))\<rparr>)))"

definition isAccountBlocked :: "int \<Rightarrow> accountDoc \<Rightarrow> bool \<times> accountDoc" where
  "isAccountBlocked t doc =
     (case blockedUntil doc of
        None \<Rightarrow> (False, doc)
      | Some until \<Rightarrow>
         if t < until then (True, doc)
         else (False, doc\<lparr>blockedUntil := None\<rparr>))"

text \<open>\<^verbatim>\<open>accountDoc.blockedSymbols.get(symbol)\<close>\<close>

definition symbolBlockedUntil :: "accountDoc \<Rightarrow> string \<Rightarrow> int option" where
  "symbolBlockedUntil doc s = (case blockedSymbols doc of None \<Rightarrow> None | Some m \<Rightarrow> m s)"

text \<open>
  The same reads inside a cycle. Both functions return before they read the clock when
  there is no entry; otherwise the reading is the next one of the run.
\<close>

definition accountBlockedNow :: "world \<Rightarrow> run \<Rightarrow> bool \<times> run" where
  "accountBlockedNow w r =
     (case blockedUntil (theDoc r) of
        None \<Rightarrow> (False, r)
      | Some until \<Rightarrow>
         (case isAccountBlocked (clockAt w (reads r)) (theDoc r) of
            (b, d) \<Rightarrow> (b, r\<lparr>theDoc := d, reads := Suc (reads r)\<rparr>)))"

definition symbolBlockedNow :: "world \<Rightarrow> run \<Rightarrow> string \<Rightarrow> bool \<times> run" where
  "symbolBlockedNow w r smb =
     (case symbolBlockedUntil (theDoc r) smb of
        None \<Rightarrow> (False, r)
      | Some until \<Rightarrow>
         (case isSymbolBlocked (clockAt w (reads r)) (theDoc r) smb of
            (b, d) \<Rightarrow> (b, r\<lparr>theDoc := d, reads := Suc (reads r)\<rparr>)))"

text \<open>\<^verbatim>\<open>new Date()\<close>\<close>

definition readClock :: "world \<Rightarrow> run \<Rightarrow> int \<times> run" where
  "readClock w r = (clockAt w (reads r), r\<lparr>reads := Suc (reads r)\<rparr>)"

definition getAccountBalance :: "world \<Rightarrow> error + rat" where
  "getAccountBalance w =
     (case fetchBalance w of None \<Rightarrow> Inl BalanceUnavailable | Some b \<Rightarrow> Inr b)"

text \<open>The \<open>k\<close>-th call of \<^verbatim>\<open>getOpenPositions\<close> in the cycle.\<close>

definition getOpenPositions :: "world \<Rightarrow> nat \<Rightarrow> position list" where
  "getOpenPositions w k =
     (case fetchPositions w k of
        None \<Rightarrow> []
      | Some ps \<Rightarrow> filter (\<lambda>pos. 0 < num (contracts pos)) ps)"

definition closePosition :: "world \<Rightarrow> run \<Rightarrow> string \<Rightarrow> string \<Rightarrow> error + run" where
  "closePosition w r smb sd =
     (if createOrderFails w (orders r) then Inl (CloseFailed smb sd)
      else Inr (r\<lparr>orders := Suc (orders r)\<rparr>))"

text \<open>\<^verbatim>\<open>await accountDoc.save()\<close>\<close>

definition saveAccount :: "world \<Rightarrow> run \<Rightarrow> error + run" where
  "saveAccount w r =
     (if saveFails w (saves r) then Inl SaveFailed
      else Inr (r\<lparr>saves := Suc (saves r)\<rparr>))"

text \<open>
  The loop of \<^verbatim>\<open>closeAllPositions\<close>: the orders it asks for, up to and including
  the first one that throws (the function catches the error and returns), and the run
  after them. It works on a list of positions that it fetches itself, with the second
  \<^verbatim>\<open>fetchPositions\<close> of the cycle.
\<close>

fun closeEach :: "world \<Rightarrow> run \<Rightarrow> position list \<Rightarrow> (string \<times> string) list \<times> run" where
  "closeEach w r [] = ([], r)"
| "closeEach w r (p # ps) =
     (case closePosition w r (symbol p) (side p) of
        Inl e \<Rightarrow> ([(symbol p, side p)], r)
      | Inr r1 \<Rightarrow>
          (case closeEach w r1 ps of (os, r2) \<Rightarrow> ((symbol p, side p) # os, r2)))"

definition closeAllPositions :: "world \<Rightarrow> run \<Rightarrow> (string \<times> string) list \<times> run" where
  "closeAllPositions w r = closeEach w r (getOpenPositions w 1)"

subsection \<open>Sequencing of outcomes\<close>

fun prepend :: "action list \<Rightarrow> outcome \<Rightarrow> outcome" where
  "prepend as (Done bs r) = Done (as @ bs) r"
| "prepend as (Threw e bs r) = Threw e (as @ bs) r"

fun andThen :: "outcome \<Rightarrow> (run \<Rightarrow> outcome) \<Rightarrow> outcome" where
  "andThen (Done as r) f = prepend as (f r)"
| "andThen (Threw e as r) f = Threw e as r"

subsection \<open>Rule 2: the excess trades\<close>

text \<open>\<^verbatim>\<open>position.timestamp || position.datetime\<close>, and the sort key \<^verbatim>\<open>... || 0\<close>.\<close>

definition entryTime :: "position \<Rightarrow> int option" where
  "entryTime p =
     (case timestamp p of
        None \<Rightarrow> datetime p
      | Some t \<Rightarrow> if t \<noteq> 0 then Some t else datetime p)"

definition openTime :: "position \<Rightarrow> int" where
  "openTime p = (case entryTime p of None \<Rightarrow> 0 | Some t \<Rightarrow> t)"

text \<open>
  \<^verbatim>\<open>[...positions].sort((a, b) => timeB - timeA)\<close>: \<^verbatim>\<open>Array.prototype.sort\<close> is stable,
  as is \<open>sort_key\<close>.
\<close>

definition sortedPositions :: "position list \<Rightarrow> position list" where
  "sortedPositions positions = sort_key (\<lambda>p. - openTime p) positions"

definition tradesToClose :: "RiskParams \<Rightarrow> position list \<Rightarrow> position list" where
  "tradesToClose riskP positions =
     take (length positions - maxOpenTrades riskP) (sortedPositions positions)"

definition excessRecord :: "int \<Rightarrow> position \<Rightarrow> TradeHistory" where
  "excessRecord t trade =
     \<lparr>th_symbol = symbol trade, th_side = side trade, th_entryPrice = entryPrice trade,
      th_entryTime = entryTime trade, th_exitPrice = markPrice trade, th_exitTime = t,
      th_pnlPercent = Fin (num (percentage trade)), th_reason = ''MAX_TRADES_EXCEEDED'',
      th_leverage = leverage trade, th_size = contracts trade\<rparr>"

fun closeTrades :: "world \<Rightarrow> run \<Rightarrow> position list \<Rightarrow> outcome" where
  "closeTrades w r [] = Done [] r"
| "closeTrades w r (trade # trades) =
     (case closePosition w r (symbol trade) (side trade) of
        Inl e \<Rightarrow> Threw e [CloseOne (symbol trade) (side trade)] r
      | Inr r1 \<Rightarrow>
          (case readClock w r1 of
             (t, r2) \<Rightarrow>
               prepend
                 [CloseOne (symbol trade) (side trade), RecordTrade (excessRecord t trade)]
                 (closeTrades w r2 trades)))"

definition excessTrades :: "RiskParams \<Rightarrow> world \<Rightarrow> run \<Rightarrow> position list \<Rightarrow> outcome" where
  "excessTrades riskP w r positions =
     (if maxOpenTrades riskP < length positions
      then prepend [Alert warning TooManyTrades]
             (closeTrades w r (tradesToClose riskP positions))
      else Done [] r)"

subsection \<open>Rules 3 and 4: each individual trade\<close>

definition leverageOf :: "position \<Rightarrow> rat" where
  "leverageOf p = num (leverage p)"

definition entryPriceOf :: "position \<Rightarrow> rat" where
  "entryPriceOf p = num (entryPrice p)"

text \<open>\<^verbatim>\<open>parseFloat(position.markPrice || position.info?.markPrice || 0)\<close>\<close>

definition markPriceOf :: "position \<Rightarrow> rat" where
  "markPriceOf p =
     (if num (markPrice p) \<noteq> 0 then num (markPrice p) else num (info_markPrice p))"

definition tradePnLPercent :: "position \<Rightarrow> jsnum" where
  "tradePnLPercent p =
     (if num (percentage p) = 0 \<and> entryPriceOf p \<noteq> 0 \<and> markPriceOf p \<noteq> 0
      then (if side p = ''long''
            then js_mul
                   (js_mul
                      (js_div (js_sub (Fin (markPriceOf p)) (Fin (entryPriceOf p)))
                              (Fin (entryPriceOf p)))
                      (Fin 100))
                   (Fin (leverageOf p))
            else js_mul
                   (js_mul
                      (js_div (js_sub (Fin (entryPriceOf p)) (Fin (markPriceOf p)))
                              (Fin (entryPriceOf p)))
                      (Fin 100))
                   (Fin (leverageOf p)))
      else Fin (num (percentage p)))"

definition tradeRecord :: "int \<Rightarrow> string \<Rightarrow> position \<Rightarrow> TradeHistory" where
  "tradeRecord t reason p =
     \<lparr>th_symbol = symbol p, th_side = side p, th_entryPrice = Some (entryPriceOf p),
      th_entryTime = entryTime p, th_exitPrice = Some (markPriceOf p), th_exitTime = t,
      th_pnlPercent = tradePnLPercent p, th_reason = reason,
      th_leverage = Some (leverageOf p), th_size = contracts p\<rparr>"

text \<open>What each of the three rules of the loop body does once it applies.\<close>

definition leverageRule :: "world \<Rightarrow> run \<Rightarrow> position \<Rightarrow> outcome" where
  "leverageRule w r p =
     (case closePosition w r (symbol p) (side p) of
        Inl e \<Rightarrow>
          Threw e [Alert warning (LeverageExceedsLimit (symbol p)),
                   CloseOne (symbol p) (side p)] r
      | Inr r1 \<Rightarrow>
          (case readClock w r1 of
             (t, r2) \<Rightarrow>
               Done [Alert warning (LeverageExceedsLimit (symbol p)),
                     CloseOne (symbol p) (side p),
                     RecordTrade (tradeRecord t ''LEVERAGE_EXCEEDED'' p)] r2))"

definition blockSymbol :: "accountDoc \<Rightarrow> string \<Rightarrow> int \<Rightarrow> accountDoc" where
  "blockSymbol doc smb until =
     doc\<lparr>blockedSymbols :=
           Some ((case blockedSymbols doc of None \<Rightarrow> Map.empty | Some m \<Rightarrow> m)(smb \<mapsto> until))\<rparr>"

definition dailyLimitRule :: "world \<Rightarrow> run \<Rightarrow> position \<Rightarrow> outcome" where
  "dailyLimitRule w r p =
     (case closePosition w r (symbol p) (side p) of
        Inl e \<Rightarrow>
          Threw e [Alert critical (HitDailyLimit (symbol p)),
                   CloseOne (symbol p) (side p)] r
      | Inr r1 \<Rightarrow>
          (case readClock w r1 of
             (t, r2) \<Rightarrow>
               (case saveAccount w
                       (r2\<lparr>theDoc :=
                             blockSymbol (theDoc r2) (symbol p) (getMidnightTonight w t)\<rparr>) of
                  Inl e \<Rightarrow>
                    Threw e [Alert critical (HitDailyLimit (symbol p)),
                             CloseOne (symbol p) (side p),
                             BlockSymbolUntil (symbol p) (getMidnightTonight w t),
                             SaveAccount]
                      (r2\<lparr>theDoc :=
                            blockSymbol (theDoc r2) (symbol p) (getMidnightTonight w t)\<rparr>)
                | Inr r3 \<Rightarrow>
                    (case readClock w r3 of
                       (t', r4) \<Rightarrow>
                         Done [Alert critical (HitDailyLimit (symbol p)),
                               CloseOne (symbol p) (side p),
                               BlockSymbolUntil (symbol p) (getMidnightTonight w t),
                               SaveAccount,
                               RecordTrade (tradeRecord t' ''DAILY_LIMIT_REACHED'' p),
                               Alert warning (SymbolBlockedUntilMidnight (symbol p))] r4))))"

definition blockedSymbolRule :: "world \<Rightarrow> run \<Rightarrow> position \<Rightarrow> outcome" where
  "blockedSymbolRule w r p =
     (case symbolBlockedNow w r (symbol p) of
        (True, r1) \<Rightarrow>
          (case closePosition w r1 (symbol p) (side p) of
             Inl e \<Rightarrow>
               Threw e [Alert warning (SymbolIsBlocked (symbol p)),
                        CloseOne (symbol p) (side p)] r1
           | Inr r2 \<Rightarrow>
               (case readClock w r2 of
                  (t, r3) \<Rightarrow>
                    Done [Alert warning (SymbolIsBlocked (symbol p)),
                          CloseOne (symbol p) (side p),
                          RecordTrade (tradeRecord t ''SYMBOL_BLOCKED'' p)] r3))
      | (False, r1) \<Rightarrow> Done [] r1)"

text \<open>The body of \<^verbatim>\<open>for (const position of positions)\<close>.\<close>

definition checkPosition :: "RiskParams \<Rightarrow> world \<Rightarrow> run \<Rightarrow> position \<Rightarrow> outcome" where
  "checkPosition riskP w r p =
     (if maxLeverage riskP < leverageOf p then leverageRule w r p
      else if js_le (tradePnLPercent p) (- \<bar>dailyDrawdownLimit riskP\<bar>) then dailyLimitRule w r p
      else blockedSymbolRule w r p)"

fun checkPositions :: "RiskParams \<Rightarrow> world \<Rightarrow> run \<Rightarrow> position list \<Rightarrow> outcome" where
  "checkPositions riskP w r [] = Done [] r"
| "checkPositions riskP w r (p # ps) =
     andThen (checkPosition riskP w r p) (\<lambda>r'. checkPositions riskP w r' ps)"

subsection \<open>The cycle\<close>

definition totalDrawdownPercent :: "rat \<Rightarrow> rat \<Rightarrow> jsnum" where
  "totalDrawdownPercent currentBalance initialBalance =
     js_mul
       (js_div (js_sub (Fin currentBalance) (Fin initialBalance)) (Fin initialBalance))
       (Fin 100)"

definition maxDrawdownRule :: "world \<Rightarrow> run \<Rightarrow> accountState \<Rightarrow> outcome \<times> accountState" where
  "maxDrawdownRule w r st =
     (case closeAllPositions w r of
        (os, r0) \<Rightarrow>
          (case readClock w r0 of
             (t, r1) \<Rightarrow>
               (case saveAccount w
                       (r1\<lparr>theDoc :=
                             (theDoc r1)\<lparr>blockedUntil := Some (getMidnightTonight w t),
                                          isActive := False\<rparr>\<rparr>) of
                  Inl e \<Rightarrow>
                    (Threw e [Alert critical MaxDrawdownReached,
                              CloseAll os,
                              BlockAccountUntil (getMidnightTonight w t),
                              SaveAccount]
                       (r1\<lparr>theDoc :=
                             (theDoc r1)\<lparr>blockedUntil := Some (getMidnightTonight w t),
                                          isActive := False\<rparr>\<rparr>),
                     st)
                | Inr r2 \<Rightarrow>
                    (Done [Alert critical MaxDrawdownReached,
                           CloseAll os,
                           BlockAccountUntil (getMidnightTonight w t),
                           SaveAccount,
                           Alert critical AccountBlockedUntilMidnight] r2,
                     st\<lparr>state_isActive := False\<rparr>))))"

definition metricsOf :: "rat \<Rightarrow> rat \<Rightarrow> nat \<Rightarrow> Metric" where
  "metricsOf currentBalance initialBalance n =
     \<lparr>m_currentBalance = currentBalance,
      m_totalPnL = js_sub (Fin currentBalance) (Fin initialBalance),
      m_dailyPnL = 0,
      m_totalDrawdownPercent = totalDrawdownPercent currentBalance initialBalance,
      m_dailyDrawdownPercent = 0, m_openPositions = n\<rparr>"

definition finishCycle :: "world \<Rightarrow> Metric \<Rightarrow> run \<Rightarrow> outcome" where
  "finishCycle w m r =
     (case readClock w r of
        (t, r1) \<Rightarrow>
          (case saveAccount w (r1\<lparr>theDoc := (theDoc r1)\<lparr>lastCheck := Some t\<rparr>\<rparr>) of
             Inl e \<Rightarrow>
               Threw e [RecordMetrics m, SaveAccount]
                 (r1\<lparr>theDoc := (theDoc r1)\<lparr>lastCheck := Some t\<rparr>\<rparr>)
           | Inr r2 \<Rightarrow> Done [RecordMetrics m, SaveAccount] r2))"

definition startRun :: "accountDoc \<Rightarrow> run" where
  "startRun accountDoc = \<lparr>theDoc = accountDoc, reads = 0, orders = 0, saves = 0\<rparr>"

definition monitorAccount ::
  "world \<Rightarrow> accountDoc \<Rightarrow> accountState \<Rightarrow> outcome \<times> accountState" where
  "monitorAccount w accountDoc st =
     (case accountBlockedNow w (startRun accountDoc) of
        (True, r) \<Rightarrow> (Done [] r, st)
      | (False, r) \<Rightarrow>
          (case getAccountBalance w of
             Inl e \<Rightarrow> (Threw e [] r, st)
           | Inr currentBalance \<Rightarrow>
               if js_le (totalDrawdownPercent currentBalance (state_initialBalance st))
                        (- \<bar>maxDrawdownLimit (riskParams accountDoc)\<bar>)
               then maxDrawdownRule w r st
               else
                 (andThen
                    (excessTrades (riskParams accountDoc) w r (getOpenPositions w 0))
                    (\<lambda>r'. andThen
                       (checkPositions (riskParams accountDoc) w r' (getOpenPositions w 0))
                       (finishCycle w
                          (metricsOf currentBalance (state_initialBalance st)
                             (length (getOpenPositions w 0))))),
                  st)))"

subsection \<open>The main loop\<close>

text \<open>
  \<^verbatim>\<open>loadActiveAccounts\<close> is \<^verbatim>\<open>Account.find({ isActive: true })\<close>. One pass of the
  \<^verbatim>\<open>while\<close> loop of \<^verbatim>\<open>startMonitoring\<close> visits every account state; for an active one
  it reloads the document from the database and calls \<^verbatim>\<open>monitorAccount\<close>. The input of
  a pass is, for one account, the world of its cycle and the document the database
  returns; \<open>None\<close> in the result says that the account was not evaluated in this pass.
\<close>

definition loadActiveAccounts :: "accountDoc list \<Rightarrow> accountDoc list" where
  "loadActiveAccounts db = filter isActive db"

fun actionsOf :: "outcome \<Rightarrow> action list" where
  "actionsOf (Done as r) = as"
| "actionsOf (Threw e as r) = as"

fun runOf :: "outcome \<Rightarrow> run" where
  "runOf (Done as r) = r"
| "runOf (Threw e as r) = r"

definition docOf :: "outcome \<Rightarrow> accountDoc" where
  "docOf out = theDoc (runOf out)"

fun isDone :: "outcome \<Rightarrow> bool" where
  "isDone (Done as r) = True"
| "isDone (Threw e as r) = False"

text \<open>
  \<^verbatim>\<open>accountState.accountDoc\<close> and the document \<^verbatim>\<open>monitorAccount\<close> works on are one
  object: what the cycle does to the document shows in the account state.
\<close>

definition monitorOne ::
  "world \<Rightarrow> accountDoc \<Rightarrow> accountState \<Rightarrow> outcome option \<times> accountState" where
  "monitorOne w reloaded st =
     (if \<not> state_isActive st then (None, st)
      else (case monitorAccount w reloaded (st\<lparr>state_accountDoc := reloaded\<rparr>) of
              (out, st') \<Rightarrow> (Some out, st'\<lparr>state_accountDoc := docOf out\<rparr>)))"

text \<open>
  The passes of the loop as seen by one account: the evaluations it gets, pass by pass.
\<close>

fun monitoring :: "(world \<times> accountDoc) list \<Rightarrow> accountState \<Rightarrow> outcome option list" where
  "monitoring [] st = []"
| "monitoring ((w, reloaded) # passes) st =
     (case monitorOne w reloaded st of (ev, st') \<Rightarrow> ev # monitoring passes st')"

subsection \<open>Observers of a cycle\<close>


text \<open>The run after the account-block check.\<close>

definition afterCheck :: "world \<Rightarrow> accountDoc \<Rightarrow> run" where
  "afterCheck w doc = snd (accountBlockedNow w (startRun doc))"

text \<open>
  The cycle passes the account-block check, gets the balance and does not trip rule 1:
  rules 2 to 4 run.
\<close>

definition runsRules :: "world \<Rightarrow> accountDoc \<Rightarrow> accountState \<Rightarrow> bool" where
  "runsRules w doc st =
     (\<not> fst (isAccountBlocked (clockAt w 0) doc) \<and>
      (case getAccountBalance w of
         Inl e \<Rightarrow> False
       | Inr currentBalance \<Rightarrow>
           \<not> js_le (totalDrawdownPercent currentBalance (state_initialBalance st))
                   (- \<bar>maxDrawdownLimit (riskParams doc)\<bar>)))"

text \<open>
  Rule 2 and the loop over the positions \<open>ps\<close>, which are the first ones of the list:
  the cycle up to the position that follows them.
\<close>

definition rulesUpTo :: "world \<Rightarrow> accountDoc \<Rightarrow> position list \<Rightarrow> outcome" where
  "rulesUpTo w doc ps =
     andThen (excessTrades (riskParams doc) w (afterCheck w doc) (getOpenPositions w 0))
       (\<lambda>r. checkPositions (riskParams doc) w r ps)"

text \<open>
  What the loop of rule 2 does for the trades it closes when no order fails, the first
  reading of the clock being the \<open>k\<close>-th.
\<close>

fun excessActions :: "world \<Rightarrow> nat \<Rightarrow> position list \<Rightarrow> action list" where
  "excessActions w k [] = []"
| "excessActions w k (trade # trades) =
     CloseOne (symbol trade) (side trade) #
     RecordTrade
       \<lparr>th_symbol = symbol trade, th_side = side trade, th_entryPrice = entryPrice trade,
        th_entryTime = entryTime trade, th_exitPrice = markPrice trade,
        th_exitTime = clockAt w k, th_pnlPercent = Fin (num (percentage trade)),
        th_reason = ''MAX_TRADES_EXCEEDED'', th_leverage = leverage trade,
        th_size = contracts trade\<rparr> #
     excessActions w (Suc k) trades"

text \<open>The positions rule 2 does not close: \<^verbatim>\<open>sortedPositions.slice(excessCount)\<close>.\<close>

definition keptPositions :: "RiskParams \<Rightarrow> position list \<Rightarrow> position list" where
  "keptPositions riskP positions =
     drop (length positions - maxOpenTrades riskP) (sortedPositions positions)"

subsection \<open>The trade P&L percent as the specification words it\<close>

text \<open>
  Step 4a of the specification: the reported percentage if present and non-zero,
  otherwise the value derived from the prices, whatever the prices are. This is the
  specification's formula, to be compared with \<open>tradePnLPercent\<close>, which is the code's.
\<close>

definition derivedPnLPercent :: "position \<Rightarrow> jsnum" where
  "derivedPnLPercent p =
     (if side p = ''long''
      then js_mul
             (js_mul
                (js_div (js_sub (Fin (markPriceOf p)) (Fin (entryPriceOf p)))
                        (Fin (entryPriceOf p)))
                (Fin 100))
             (Fin (leverageOf p))
      else js_mul
             (js_mul
                (js_div (js_sub (Fin (entryPriceOf p)) (Fin (markPriceOf p)))
                        (Fin (entryPriceOf p)))
                (Fin 100))
             (Fin (leverageOf p)))"

definition spec_tradePnLPercent :: "position \<Rightarrow> jsnum" where
  "spec_tradePnLPercent p =
     (case percentage p of
        None \<Rightarrow> derivedPnLPercent p
      | Some r \<Rightarrow> if r \<noteq> 0 then Fin r else derivedPnLPercent p)"

subsection \<open>The total drawdown percent as the specification words it\<close>


subsection \<open>Example inputs\<close>

definition exampleParams :: RiskParams where
  "exampleParams =
     \<lparr>dailyDrawdownLimit = 5, maxDrawdownLimit = 20, maxLeverage = 20, maxOpenTrades = 3\<rparr>"

text \<open>An account whose account block and block of BTC/USDT both end at the instant 1000.\<close>

definition blockedDoc :: accountDoc where
  "blockedDoc =
     \<lparr>riskParams = exampleParams, isActive = True, lastCheck = None,
      blockedSymbols = Some [''BTC/USDT'' \<mapsto> 1000], blockedUntil = Some 1000\<rparr>"

definition examplePosition :: "string \<Rightarrow> string \<Rightarrow> rat \<Rightarrow> rat \<Rightarrow> rat \<Rightarrow> int \<Rightarrow> position" where
  "examplePosition smb sd lev entry mark t =
     \<lparr>symbol = smb, side = sd, leverage = Some lev, entryPrice = Some entry,
      markPrice = Some mark, info_markPrice = None, percentage = None,
      contracts = Some 1, timestamp = Some t, datetime = None\<rparr>"

definition exampleDoc :: accountDoc where
  "exampleDoc =
     \<lparr>riskParams = exampleParams, isActive = True, lastCheck = None,
      blockedSymbols = Some Map.empty, blockedUntil = None\<rparr>"

definition exampleState :: accountState where
  "exampleState =
     \<lparr>state_accountDoc = exampleDoc, state_isActive = True, state_initialBalance = 1000\<rparr>"

text \<open>
  A world in which the clock stands at the instant 1000 of a runtime on UTC, the
  exchange reports the balance \<open>b\<close> and the positions \<open>ps\<close>, and no order and no save
  is rejected.
\<close>

definition exampleWorld :: "rat \<Rightarrow> position list \<Rightarrow> world" where
  "exampleWorld b ps =
     \<lparr>fetchBalance = Some b, fetchPositions = (\<lambda>k. Some ps),
      createOrderFails = (\<lambda>k. False), saveFails = (\<lambda>k. False),
      clockAt = (\<lambda>k. 1000), localTZA = (\<lambda>t isUTC. 0)\<rparr>"


text \<open>Two open positions, for the cycles in which rule 1 trips.\<close>

definition twoPositions :: "position list" where
  "twoPositions =
     [examplePosition ''BTC/USDT'' ''long'' 25 100 101 10,
      examplePosition ''ETH/USDT'' ''short'' 5 100 120 20]"




text \<open>A position for which the exchange reports no mark price and no percentage.\<close>

definition noMarkPosition :: position where
  "noMarkPosition =
     \<lparr>symbol = ''BTC/USDT'', side = ''long'', leverage = Some 1, entryPrice = Some 100,
      markPrice = None, info_markPrice = None, percentage = None,
      contracts = Some 1, timestamp = Some 10, datetime = None\<rparr>"

text \<open>
  Two later passes of the main loop, at the midnight of the block and five seconds
  after it, in which the database returns the blocked document.
\<close>

definition laterPasses :: "(world \<times> accountDoc) list" where
  "laterPasses =
     [((exampleWorld 1000 [])\<lparr>clockAt := (\<lambda>k. 86400000)\<rparr>,
       exampleDoc\<lparr>blockedUntil := Some 86400000, isActive := False\<rparr>),
      ((exampleWorld 1000 [])\<lparr>clockAt := (\<lambda>k. 86405000)\<rparr>,
       exampleDoc\<lparr>blockedUntil := Some 86400000, isActive := False\<rparr>)]"

section \<open>Properties\<close>

subsection \<open>The midnight boundary\<close>

lemma nextLocalMidnight_bounds:
  "t + localTZA w t True < nextLocalMidnight w t \<and>
   nextLocalMidnight w t \<le> t + localTZA w t True + dayMs \<and>
   nextLocalMidnight w t mod dayMs = 0"
proof -
  define n where "n = t + localTZA w t True"
  have e: "dayMs * (n div dayMs) + n mod dayMs = n" by (rule mult_div_mod_eq)
  have b: "0 \<le> n mod dayMs \<and> n mod dayMs < dayMs" by (simp add: dayMs_def)
  have m: "nextLocalMidnight w t = dayMs * (n div dayMs) + dayMs"
    by (simp add: nextLocalMidnight_def n_def algebra_simps)
  have "nextLocalMidnight w t mod dayMs = 0" by (simp add: nextLocalMidnight_def)
  moreover have "n < nextLocalMidnight w t \<and> nextLocalMidnight w t \<le> n + dayMs"
    using m e b by linarith
  ultimately show ?thesis unfolding n_def by simp
qed

lemma midnight_after_now:
  assumes "localTZA w (nextLocalMidnight w t) False \<le> localTZA w t True"
  shows "t < getMidnightTonight w t"
  using assms nextLocalMidnight_bounds [of t w] by (simp add: getMidnightTonight_def)

subsection \<open>Sequencing\<close>

lemma prepend_prepend [simp]: "prepend as (prepend bs x) = prepend (as @ bs) x"
  by (cases x) simp_all

lemma prepend_Nil [simp]: "prepend [] x = x"
  by (cases x) simp_all

lemma prepend_Done: "prepend as x = Done acts r \<longleftrightarrow> (\<exists>bs. x = Done bs r \<and> acts = as @ bs)"
  by (cases x) auto

lemma andThen_Done:
  "andThen x f = Done acts r \<longleftrightarrow>
     (\<exists>a1 r1 a2. x = Done a1 r1 \<and> f r1 = Done a2 r \<and> acts = a1 @ a2)"
  by (cases x) (auto simp: prepend_Done)

lemma andThen_prepend [simp]: "andThen (prepend as x) f = prepend as (andThen x f)"
  by (cases x) simp_all

lemma andThen_assoc: "andThen (andThen x f) g = andThen x (\<lambda>r. andThen (f r) g)"
  by (cases x) simp_all

lemma actionsOf_prepend [simp]: "actionsOf (prepend as x) = as @ actionsOf x"
  by (cases x) simp_all

lemma runOf_prepend [simp]: "runOf (prepend as x) = runOf x"
  by (cases x) simp_all

lemma isDone_prepend [simp]: "isDone (prepend as x) = isDone x"
  by (cases x) simp_all

lemma actionsOf_andThen:
  "actionsOf (andThen x f) =
     actionsOf x @ (if isDone x then actionsOf (f (runOf x)) else [])"
  by (cases x) simp_all

lemma checkPositions_append:
  "checkPositions riskP w r (xs @ ys) =
     andThen (checkPositions riskP w r xs) (\<lambda>r'. checkPositions riskP w r' ys)"
  by (induction xs arbitrary: r) (simp_all add: andThen_assoc)

subsection \<open>The shape of a cycle that runs the rules\<close>

lemma accountBlockedNow_fst:
  "fst (accountBlockedNow w (startRun doc)) = fst (isAccountBlocked (clockAt w 0) doc)"
  by (simp add: accountBlockedNow_def startRun_def isAccountBlocked_def split: option.splits)

lemma monitorAccount_runs:
  assumes "runsRules w doc st"
  shows "\<exists>currentBalance. fetchBalance w = Some currentBalance \<and>
     monitorAccount w doc st =
       (andThen
          (excessTrades (riskParams doc) w (afterCheck w doc) (getOpenPositions w 0))
          (\<lambda>r. andThen
             (checkPositions (riskParams doc) w r (getOpenPositions w 0))
             (finishCycle w
                (metricsOf currentBalance (state_initialBalance st)
                   (length (getOpenPositions w 0))))),
        st)"
proof (cases "fetchBalance w")
  case None
  with assms show ?thesis by (simp add: runsRules_def getAccountBalance_def)
next
  case (Some b)
  obtain bl r where g: "accountBlockedNow w (startRun doc) = (bl, r)"
    by (cases "accountBlockedNow w (startRun doc)")
  with assms accountBlockedNow_fst [of w doc] have "\<not> bl" by (simp add: runsRules_def)
  with assms Some g show ?thesis
    by (simp add: runsRules_def monitorAccount_def getAccountBalance_def afterCheck_def)
qed

lemma cycle_body:
  assumes run: "runsRules w doc st"
    and split: "getOpenPositions w 0 = ps1 @ p # ps2"
    and reach: "rulesUpTo w doc ps1 = Done before r"
  shows "\<exists>after. actionsOf (fst (monitorAccount w doc st)) =
           before @ actionsOf (checkPosition (riskParams doc) w r p) @ after"
proof -
  let ?rp = "riskParams doc"
  from monitorAccount_runs [OF run] obtain b where
    m: "monitorAccount w doc st =
         (andThen (excessTrades ?rp w (afterCheck w doc) (getOpenPositions w 0))
            (\<lambda>r. andThen (checkPositions ?rp w r (getOpenPositions w 0))
               (finishCycle w (metricsOf b (state_initialBalance st)
                  (length (getOpenPositions w 0))))), st)"
    by blast
  from reach obtain ea r0 a1 where
    e: "excessTrades ?rp w (afterCheck w doc) (getOpenPositions w 0) = Done ea r0" and
    l: "checkPositions ?rp w r0 ps1 = Done a1 r" and
    b: "before = ea @ a1"
    unfolding rulesUpTo_def andThen_Done by blast
  have c: "checkPositions ?rp w r0 (ps1 @ p # ps2) =
             prepend a1 (andThen (checkPosition ?rp w r p) (\<lambda>r'. checkPositions ?rp w r' ps2))"
    by (simp add: checkPositions_append l)
  have "fst (monitorAccount w doc st) =
          prepend ea (andThen (checkPositions ?rp w r0 (ps1 @ p # ps2))
            (finishCycle w (metricsOf b (state_initialBalance st)
               (length (getOpenPositions w 0)))))"
    unfolding m fst_conv e andThen.simps split [symmetric] ..
  then show ?thesis
    by (simp add: c b actionsOf_andThen)
qed

subsection \<open>Evaluating a cycle on concrete inputs\<close>

lemma floor_rat_numeral: "\<lfloor>(numeral a :: rat) / numeral b\<rfloor> = numeral a div numeral b"
proof -
  have "\<lfloor>(of_int (numeral a) :: rat) / of_int (numeral b)\<rfloor> = numeral a div numeral b"
    by (rule floor_divide_of_int_eq)
  then show ?thesis by simp
qed

lemmas rd_defs =
  rd_def ulp_def expo_def pow2_def roundEven_def expo_hi.simps expo_lo.simps floor_rat_numeral

lemmas cycle_defs =
  monitorAccount_def accountBlockedNow_def symbolBlockedNow_def isAccountBlocked_def
  isSymbolBlocked_def symbolBlockedUntil_def readClock_def saveAccount_def
  getAccountBalance_def getOpenPositions_def totalDrawdownPercent_def js_le_def
  maxDrawdownRule_def excessTrades_def tradesToClose_def sortedPositions_def openTime_def
  entryTime_def excessRecord_def closePosition_def checkPosition_def leverageRule_def
  dailyLimitRule_def blockedSymbolRule_def blockSymbol_def leverageOf_def entryPriceOf_def
  markPriceOf_def tradePnLPercent_def tradeRecord_def num_def finishCycle_def
  getMidnightTonight_def nextLocalMidnight_def dayMs_def closeAllPositions_def metricsOf_def
  runsRules_def startRun_def afterCheck_def rulesUpTo_def

lemmas example_defs =
  exampleParams_def exampleDoc_def exampleState_def exampleWorld_def examplePosition_def

subsection \<open>Lazy expiry of blocks\<close>

text \<open>
  C8. Reading the blocking state. \<^verbatim>\<open>isAccountBlocked\<close> and \<^verbatim>\<open>isSymbolBlocked\<close> answer
  "blocked" exactly when the entry exists and its timestamp is strictly after the time
  of the read; an entry whose timestamp is equal to (or before) that time is expired.
  A read that answers "blocked" leaves the document as it is, a read that finds the
  entry expired removes it, and after the read the entry that was read is never an
  expired one.
\<close>

theorem lazy_expiry_on_read:
  "(fst (isAccountBlocked t doc) \<longleftrightarrow> (\<exists>until. blockedUntil doc = Some until \<and> t < until)) \<and>
   (fst (isSymbolBlocked t doc s) \<longleftrightarrow>
      (\<exists>m until. blockedSymbols doc = Some m \<and> m s = Some until \<and> t < until)) \<and>
   snd (isAccountBlocked t doc) =
      (if fst (isAccountBlocked t doc) \<or> blockedUntil doc = None then doc
       else doc\<lparr>blockedUntil := None\<rparr>) \<and>
   snd (isSymbolBlocked t doc s) =
      (case blockedSymbols doc of
         None \<Rightarrow> doc
       | Some m \<Rightarrow>
           if fst (isSymbolBlocked t doc s) \<or> m s = None then doc
           else doc\<lparr>blockedSymbols := Some (m(s := None))\<rparr>) \<and>
   (\<forall>until. blockedUntil (snd (isAccountBlocked t doc)) = Some until \<longrightarrow> t < until) \<and>
   (\<forall>m until. blockedSymbols (snd (isSymbolBlocked t doc s)) = Some m \<and> m s = Some until
        \<longrightarrow> t < until)"
  by (auto simp: isAccountBlocked_def isSymbolBlocked_def split: option.splits)

text \<open>
  At the instant 1000 both blocks of \<open>blockedDoc\<close> are expired and removed by the read;
  one millisecond earlier both still block and the document is unchanged.
\<close>

theorem lazy_expiry_on_read_witness:
  "isAccountBlocked 1000 blockedDoc = (False, blockedDoc\<lparr>blockedUntil := None\<rparr>) \<and>
   fst (isSymbolBlocked 1000 blockedDoc ''BTC/USDT'') = False \<and>
   blockedSymbols (snd (isSymbolBlocked 1000 blockedDoc ''BTC/USDT'')) = Some Map.empty \<and>
   isAccountBlocked 999 blockedDoc = (True, blockedDoc) \<and>
   isSymbolBlocked 999 blockedDoc ''BTC/USDT'' = (True, blockedDoc)"
  using lazy_expiry_on_read [of 1000 blockedDoc "''BTC/USDT''"]
  by (simp add: isAccountBlocked_def isSymbolBlocked_def blockedDoc_def)

subsection \<open>The account-block check\<close>

text \<open>
  C2. If \<^verbatim>\<open>blockedUntil\<close> is set and strictly in the future at the time of the cycle,
  \<^verbatim>\<open>monitorAccount\<close> returns at once: the cycle makes no call at all (no alert, no
  close, no trade record, no metrics, no save; it has read the clock once) and the
  document and the account state are unchanged, whatever the world would answer.
\<close>

theorem blocked_account_is_skipped:
  assumes "blockedUntil doc = Some until" and "clockAt w 0 < until"
  shows "monitorAccount w doc st =
           (Done [] \<lparr>theDoc = doc, reads = 1, orders = 0, saves = 0\<rparr>, st)"
  using assms
  by (simp add: monitorAccount_def accountBlockedNow_def isAccountBlocked_def startRun_def)

theorem blocked_account_is_skipped_witness:
  "blockedUntil blockedDoc = Some 1000 \<and>
   clockAt ((exampleWorld 700 twoPositions)\<lparr>clockAt := (\<lambda>k. 999)\<rparr>) 0 < 1000 \<and>
   monitorAccount ((exampleWorld 700 twoPositions)\<lparr>clockAt := (\<lambda>k. 999)\<rparr>) blockedDoc
       exampleState =
     (Done [] \<lparr>theDoc = blockedDoc, reads = 1, orders = 0, saves = 0\<rparr>, exampleState)"
  using blocked_account_is_skipped
    [of blockedDoc 1000 "(exampleWorld 700 twoPositions)\<lparr>clockAt := (\<lambda>k. 999)\<rparr>" exampleState]
  by (simp add: blockedDoc_def exampleWorld_def)

subsection \<open>The trade P&L percent\<close>

text \<open>
  C7, as stated, fails: for a long position with entry 100 and leverage 1 for which the
  exchange reports neither a percentage nor a mark price, the stated formula gives
  \<open>((0 - 100) / 100) * 100 * 1 = -100\<close>, while the code, whose derivation is guarded by
  \<^verbatim>\<open>entryPrice && markPrice\<close>, keeps 0.
\<close>

theorem trade_pnl_percent_counterexample:
  "percentage noMarkPosition = None \<and> side noMarkPosition = ''long'' \<and>
   entryPriceOf noMarkPosition = 100 \<and> markPriceOf noMarkPosition = 0 \<and>
   leverageOf noMarkPosition = 1 \<and>
   spec_tradePnLPercent noMarkPosition = Fin (- 100) \<and>
   tradePnLPercent noMarkPosition = Fin 0 \<and>
   tradePnLPercent noMarkPosition \<noteq> spec_tradePnLPercent noMarkPosition"
  by (simp add: spec_tradePnLPercent_def derivedPnLPercent_def tradePnLPercent_def
      noMarkPosition_def entryPriceOf_def markPriceOf_def leverageOf_def num_def rd_defs)

text \<open>
  C7, amended. The trade P&L percent is the reported percentage when that is present
  and non-zero. Otherwise, when the entry price and the mark price are both non-zero,
  it is \<open>((mark - entry) / entry) * 100 * leverage\<close> for a long position and
  \<open>((entry - mark) / entry) * 100 * leverage\<close> for any other side, each operation being
  the one of JavaScript; and when the entry price or the mark price is zero or absent,
  it is 0. So it is the specification's value except when nothing is reported and a
  price is missing.
\<close>

theorem trade_pnl_percent:
  "(num (percentage p) \<noteq> 0 \<longrightarrow> tradePnLPercent p = Fin (num (percentage p))) \<and>
   (num (percentage p) = 0 \<and> entryPriceOf p \<noteq> 0 \<and> markPriceOf p \<noteq> 0 \<and> side p = ''long'' \<longrightarrow>
      tradePnLPercent p =
        js_mul
          (js_mul
             (js_div (js_sub (Fin (markPriceOf p)) (Fin (entryPriceOf p))) (Fin (entryPriceOf p)))
             (Fin 100))
          (Fin (leverageOf p))) \<and>
   (num (percentage p) = 0 \<and> entryPriceOf p \<noteq> 0 \<and> markPriceOf p \<noteq> 0 \<and> side p \<noteq> ''long'' \<longrightarrow>
      tradePnLPercent p =
        js_mul
          (js_mul
             (js_div (js_sub (Fin (entryPriceOf p)) (Fin (markPriceOf p))) (Fin (entryPriceOf p)))
             (Fin 100))
          (Fin (leverageOf p))) \<and>
   (num (percentage p) = 0 \<and> (entryPriceOf p = 0 \<or> markPriceOf p = 0) \<longrightarrow>
      tradePnLPercent p = Fin 0) \<and>
   (num (percentage p) \<noteq> 0 \<or> (entryPriceOf p \<noteq> 0 \<and> markPriceOf p \<noteq> 0) \<longrightarrow>
      tradePnLPercent p = spec_tradePnLPercent p)"
  by (auto simp: tradePnLPercent_def spec_tradePnLPercent_def derivedPnLPercent_def num_def
      split: option.splits)

theorem trade_pnl_percent_witness:
  "tradePnLPercent (examplePosition ''BTC/USDT'' ''long'' 1 100 94 10) = Fin (- 6) \<and>
   tradePnLPercent (examplePosition ''BTC/USDT'' ''short'' 2 100 94 10) = Fin 12 \<and>
   tradePnLPercent ((examplePosition ''BTC/USDT'' ''long'' 1 100 94 10)\<lparr>percentage := Some 3\<rparr>)
     = Fin 3 \<and>
   tradePnLPercent noMarkPosition = Fin 0"
  using trade_pnl_percent [of "examplePosition ''BTC/USDT'' ''long'' 1 100 94 10"]
    trade_pnl_percent [of "examplePosition ''BTC/USDT'' ''short'' 2 100 94 10"]
    trade_pnl_percent [of "(examplePosition ''BTC/USDT'' ''long'' 1 100 94 10)\<lparr>percentage := Some 3\<rparr>"]
    trade_pnl_percent [of noMarkPosition]
  by (simp add: examplePosition_def noMarkPosition_def entryPriceOf_def markPriceOf_def
      leverageOf_def num_def rd_defs)

subsection \<open>Rule 1: the maximum drawdown\<close>

lemma closeEach_keeps:
  "theDoc (snd (closeEach w r ps)) = theDoc r \<and>
   reads (snd (closeEach w r ps)) = reads r \<and>
   saves (snd (closeEach w r ps)) = saves r"
proof (induction ps arbitrary: r)
  case Nil
  show ?case by simp
next
  case (Cons p ps)
  show ?case
  proof (cases "createOrderFails w (orders r)")
    case True
    then show ?thesis by (simp add: closePosition_def)
  next
    case False
    obtain os r2 where c: "closeEach w (r\<lparr>orders := Suc (orders r)\<rparr>) ps = (os, r2)"
      by (cases "closeEach w (r\<lparr>orders := Suc (orders r)\<rparr>) ps")
    from Cons.IH [of "r\<lparr>orders := Suc (orders r)\<rparr>"] c False show ?thesis
      by (simp add: closePosition_def)
  qed
qed

lemma afterCheck_run:
  "theDoc (afterCheck w doc) = snd (isAccountBlocked (clockAt w 0) doc) \<and>
   reads (afterCheck w doc) = (if blockedUntil doc = None then 0 else 1) \<and>
   orders (afterCheck w doc) = 0 \<and> saves (afterCheck w doc) = 0"
  by (simp add: afterCheck_def accountBlockedNow_def startRun_def isAccountBlocked_def
      split: option.splits)

lemma drawdown_trips:
  assumes "\<not> fst (isAccountBlocked (clockAt w 0) doc)"
    and "fetchBalance w = Some currentBalance"
    and "js_le (totalDrawdownPercent currentBalance (state_initialBalance st))
           (- \<bar>maxDrawdownLimit (riskParams doc)\<bar>)"
  shows "monitorAccount w doc st = maxDrawdownRule w (afterCheck w doc) st"
proof -
  obtain bl r where g: "accountBlockedNow w (startRun doc) = (bl, r)"
    by (cases "accountBlockedNow w (startRun doc)")
  with assms(1) accountBlockedNow_fst [of w doc] have "\<not> bl" by simp
  with g assms(2,3) show ?thesis
    by (simp add: monitorAccount_def getAccountBalance_def afterCheck_def)
qed

lemma maxDrawdownRule_result:
  "maxDrawdownRule w r st =
     (if saveFails w (saves r)
      then (Threw SaveFailed
              [Alert critical MaxDrawdownReached,
               CloseAll (fst (closeAllPositions w r)),
               BlockAccountUntil (getMidnightTonight w (clockAt w (reads r))),
               SaveAccount]
              \<lparr>theDoc = (theDoc r)\<lparr>blockedUntil :=
                                     Some (getMidnightTonight w (clockAt w (reads r))),
                                   isActive := False\<rparr>,
               reads = Suc (reads r), orders = orders (snd (closeAllPositions w r)),
               saves = saves r\<rparr>, st)
      else (Done
              [Alert critical MaxDrawdownReached,
               CloseAll (fst (closeAllPositions w r)),
               BlockAccountUntil (getMidnightTonight w (clockAt w (reads r))),
               SaveAccount,
               Alert critical AccountBlockedUntilMidnight]
              \<lparr>theDoc = (theDoc r)\<lparr>blockedUntil :=
                                     Some (getMidnightTonight w (clockAt w (reads r))),
                                   isActive := False\<rparr>,
               reads = Suc (reads r), orders = orders (snd (closeAllPositions w r)),
               saves = Suc (saves r)\<rparr>, st\<lparr>state_isActive := False\<rparr>))"
proof -
  obtain os r0 where c: "closeAllPositions w r = (os, r0)" by (cases "closeAllPositions w r")
  have k: "theDoc r0 = theDoc r" "reads r0 = reads r" "saves r0 = saves r"
    using closeEach_keeps [of w r "getOpenPositions w 1"] c
    by (simp_all add: closeAllPositions_def)
  show ?thesis
    by (cases r0) (use k in \<open>simp add: maxDrawdownRule_def c readClock_def saveAccount_def\<close>)
qed





subsection \<open>After the account block\<close>

lemma inactive_never_monitored:
  "\<not> state_isActive st \<Longrightarrow> monitoring passes st = replicate (length passes) None"
  by (induction passes) (auto simp: monitorOne_def)

text \<open>
  C3. The claim is that an account blocked by rule 1 is monitored again once the block
  has expired. Rule 1 also saves the document with \<^verbatim>\<open>isActive = false\<close> and, once that
  save is accepted, sets \<^verbatim>\<open>accountState.isActive = false\<close>. The main loop skips an
  account state that is not active and nothing sets the flag again: the pass in which
  rule 1 trips is the last one that evaluates the account, whatever the later passes
  are and at whatever time they run; and \<^verbatim>\<open>loadActiveAccounts\<close> does not return the
  saved document when the process starts again. The lazy unblock of
  \<^verbatim>\<open>isAccountBlocked\<close> is never reached for such an account.
\<close>

theorem max_drawdown_block_never_resumes:
  assumes active: "state_isActive st"
    and unblocked: "\<not> fst (isAccountBlocked (clockAt w 0) doc)"
    and balance: "fetchBalance w = Some currentBalance"
    and trip: "js_le (totalDrawdownPercent currentBalance (state_initialBalance st))
                 (- \<bar>maxDrawdownLimit (riskParams doc)\<bar>)"
    and saved: "\<not> saveFails w 0"
  shows "\<exists>acts r.
     (\<forall>passes. monitoring ((w, doc) # passes) st =
                 Some (Done acts r) # replicate (length passes) None) \<and>
     blockedUntil (theDoc r) =
       Some (getMidnightTonight w (clockAt w (reads (afterCheck w doc)))) \<and>
     (localTZA w (nextLocalMidnight w (clockAt w (reads (afterCheck w doc)))) False
        \<le> localTZA w (clockAt w (reads (afterCheck w doc))) True \<longrightarrow>
      clockAt w (reads (afterCheck w doc))
        < getMidnightTonight w (clockAt w (reads (afterCheck w doc)))) \<and>
     (\<forall>db. theDoc r \<notin> set (loadActiveAccounts db))"
proof -
  let ?st = "st\<lparr>state_accountDoc := doc\<rparr>"
  have "js_le (totalDrawdownPercent currentBalance (state_initialBalance ?st))
          (- \<bar>maxDrawdownLimit (riskParams doc)\<bar>)"
    using trip by simp
  from drawdown_trips [OF unblocked balance this]
  have m: "monitorAccount w doc ?st = maxDrawdownRule w (afterCheck w doc) ?st" .
  have s: "saves (afterCheck w doc) = 0" using afterCheck_run [of w doc] by simp
  show ?thesis
    using active saved midnight_after_now [of w "clockAt w (reads (afterCheck w doc))"]
    by (simp add: monitorOne_def m maxDrawdownRule_result s inactive_never_monitored
        loadActiveAccounts_def docOf_def)
qed

text \<open>
  The account of the example trips rule 1 at the instant 1000 and is blocked until
  86400000. The passes at 86400000 and at 86405000 do not evaluate it, although a read
  of the block at 86400000 would find it expired.
\<close>

theorem max_drawdown_block_never_resumes_witness:
  "state_isActive exampleState \<and>
   \<not> saveFails (exampleWorld 700 twoPositions) 0 \<and>
   map (\<lambda>pass. clockAt (fst pass) 0) laterPasses = [86400000, 86405000] \<and>
   monitoring ((exampleWorld 700 twoPositions, exampleDoc) # laterPasses) exampleState =
     [Some (Done [Alert critical MaxDrawdownReached,
                  CloseAll [(''BTC/USDT'', ''long''), (''ETH/USDT'', ''short'')],
                  BlockAccountUntil 86400000,
                  SaveAccount,
                  Alert critical AccountBlockedUntilMidnight]
              \<lparr>theDoc = exampleDoc\<lparr>blockedUntil := Some 86400000, isActive := False\<rparr>,
               reads = 1, orders = 2, saves = 1\<rparr>),
      None, None] \<and>
   loadActiveAccounts [exampleDoc\<lparr>blockedUntil := Some 86400000, isActive := False\<rparr>] = [] \<and>
   fst (isAccountBlocked 86400000 (exampleDoc\<lparr>blockedUntil := Some 86400000, isActive := False\<rparr>))
     = False"
proof -
  have s: "state_isActive exampleState" by (simp add: example_defs)
  have a: "\<not> fst (isAccountBlocked (clockAt (exampleWorld 700 twoPositions) 0) exampleDoc)"
    by (simp add: cycle_defs example_defs)
  have b: "fetchBalance (exampleWorld 700 twoPositions) = Some 700"
    by (simp add: exampleWorld_def)
  have c: "js_le (totalDrawdownPercent 700 (state_initialBalance exampleState))
             (- \<bar>maxDrawdownLimit (riskParams exampleDoc)\<bar>)"
    by (simp add: totalDrawdownPercent_def js_le_def example_defs rd_defs)
  have f: "\<not> saveFails (exampleWorld 700 twoPositions) 0"
    by (simp add: exampleWorld_def)
  note general = max_drawdown_block_never_resumes [OF s a b c f]
  have l: "map (\<lambda>pass. clockAt (fst pass) 0) laterPasses = [86400000, 86405000]"
    by (simp add: laterPasses_def exampleWorld_def)
  have e: "monitoring ((exampleWorld 700 twoPositions, exampleDoc) # laterPasses) exampleState =
     [Some (Done [Alert critical MaxDrawdownReached,
                  CloseAll [(''BTC/USDT'', ''long''), (''ETH/USDT'', ''short'')],
                  BlockAccountUntil 86400000,
                  SaveAccount,
                  Alert critical AccountBlockedUntilMidnight]
              \<lparr>theDoc = exampleDoc\<lparr>blockedUntil := Some 86400000, isActive := False\<rparr>,
               reads = 1, orders = 2, saves = 1\<rparr>),
      None, None]"
    by (simp add: cycle_defs example_defs twoPositions_def laterPasses_def monitorOne_def
        docOf_def rd_defs)
  have d: "loadActiveAccounts [exampleDoc\<lparr>blockedUntil := Some 86400000, isActive := False\<rparr>] = []"
    by (simp add: loadActiveAccounts_def)
  have g: "fst (isAccountBlocked 86400000
                 (exampleDoc\<lparr>blockedUntil := Some 86400000, isActive := False\<rparr>)) = False"
    by (simp add: isAccountBlocked_def)
  from general s f l e d g show ?thesis by blast
qed

end
